theory Spec2Isabelle
  imports Main
begin

section \<open>Data model\<close>

text \<open>
  A Python \<open>bytes\<close> value is a list of 8-bit characters. A Python \<open>str\<close> is
  represented by its UTF-8 encoding, again a list of 8-bit characters: the only \<open>str\<close>
  values the code handles are results of \<open>bytes.decode('utf-8')\<close>, of base64
  encoding, of the hash's hex digest and of the libraries below, and the storage column
  holds text in that encoding.
\<close>

type_synonym bytes = "char list"
type_synonym str = "char list"

text \<open>
  The exceptions that leave the functions modelled here: the storage layer's rejection of
  an insert that breaks the \<open>unique=True\<close> constraint of \<open>content_hash\<close>
  (database.py, line 23), and the lookup of an attribute that a class does not define.
\<close>

datatype error = IntegrityError | AttributeError

text \<open>
  database.py, class \<open>DataEntry\<close>. The object built by \<open>DataEntry(...)\<close> in
  services.py (lines 100 to 107) carries the column values given by the caller and no
  \<open>id\<close> yet; a persisted row has them and the primary key. The columns
  \<open>created_at\<close> and \<open>updated_at\<close> are filled from the wall clock by the
  column defaults and are read nowhere in the code; they are left out.
\<close>

record DataEntry_values =
  content_hash :: str
  content :: str
  content_type :: "str option"
  is_verified :: bool
  source :: "str option"
  confidence_score :: int

record DataEntry = DataEntry_values +
  entry_id :: int

text \<open>The table \<open>data_entries\<close>: its rows, oldest first.\<close>

type_synonym table = "DataEntry list"

section \<open>Library calls\<close>

text \<open>
  The code calls four libraries whose sources are not part of the repository. BLAKE3,
  libmagic and the JSON codec are parameters of the model, collected in one record;
  each field is the library function as the code calls it.
  \<^item> \<open>blake3_hexdigest b\<close> is \<open>blake3.blake3(b).hexdigest()\<close>;
  \<^item> \<open>magic_from_buffer b\<close> is \<open>magic.Magic(mime=True).from_buffer(b)\<close>;
  \<^item> \<open>json_loads s\<close> is \<open>json.loads(s)\<close>, with \<open>None\<close> for the
    \<open>JSONDecodeError\<close> that the code catches;
  \<^item> \<open>json_dumps v indent ensure_ascii\<close> is
    \<open>json.dumps(v, indent=indent, ensure_ascii=ensure_ascii)\<close>.
  The interpreter's resource limits (recursion depth, the length of integer literals)
  are not modelled.
\<close>

record 'j library =
  blake3_hexdigest :: "bytes \<Rightarrow> str"
  magic_from_buffer :: "bytes \<Rightarrow> str"
  json_loads :: "str \<Rightarrow> 'j option"
  json_dumps :: "'j \<Rightarrow> nat \<Rightarrow> bool \<Rightarrow> str"

subsection \<open>Strict UTF-8 decoding\<close>

text \<open>
  \<open>bytes.decode('utf-8')\<close> accepts exactly the well-formed byte sequences of the
  Unicode standard (no overlong forms, no surrogates, nothing above U+10FFFF) and raises
  \<open>UnicodeDecodeError\<close> on every other input.
\<close>

definition continuation :: "nat \<Rightarrow> bool" where
  "continuation b = (0x80 \<le> b \<and> b \<le> 0xBF)"

fun utf8_well_formed :: "nat list \<Rightarrow> bool" where
  "utf8_well_formed [] = True"
| "utf8_well_formed (a # bs) =
     (if a < 0x80 then utf8_well_formed bs
      else if 0xC2 \<le> a \<and> a \<le> 0xDF then
        (case bs of
           b # r \<Rightarrow> continuation b \<and> utf8_well_formed r
         | _ \<Rightarrow> False)
      else if 0xE0 \<le> a \<and> a \<le> 0xEF then
        (case bs of
           b # c # r \<Rightarrow>
             (if a = 0xE0 then 0xA0 \<le> b \<and> b \<le> 0xBF
              else if a = 0xED then 0x80 \<le> b \<and> b \<le> 0x9F
              else continuation b)
             \<and> continuation c \<and> utf8_well_formed r
         | _ \<Rightarrow> False)
      else if 0xF0 \<le> a \<and> a \<le> 0xF4 then
        (case bs of
           b # c # d # r \<Rightarrow>
             (if a = 0xF0 then 0x90 \<le> b \<and> b \<le> 0xBF
              else if a = 0xF4 then 0x80 \<le> b \<and> b \<le> 0x8F
              else continuation b)
             \<and> continuation c \<and> continuation d \<and> utf8_well_formed r
         | _ \<Rightarrow> False)
      else False)"

text \<open>\<open>content.decode('utf-8')\<close>: \<open>None\<close> is \<open>UnicodeDecodeError\<close>.\<close>

definition decode_utf8 :: "bytes \<Rightarrow> str option" where
  "decode_utf8 payload =
     (if utf8_well_formed (map of_char payload) then Some payload else None)"

subsection \<open>Base64\<close>

definition b64_alphabet :: "char list" where
  "b64_alphabet =
     ''ABCDEFGHIJKLMNOPQRSTUVWXYZabcdefghijklmnopqrstuvwxyz0123456789+/''"

definition b64_digit :: "nat \<Rightarrow> char" where
  "b64_digit n = b64_alphabet ! (n mod 64)"

text \<open>\<open>base64.b64encode(content).decode('utf-8')\<close>, on the byte values.\<close>

fun b64encode_nat :: "nat list \<Rightarrow> char list" where
  "b64encode_nat [] = []"
| "b64encode_nat [a] =
     [b64_digit (a div 4), b64_digit ((a mod 4) * 16), CHR ''='', CHR ''='']"
| "b64encode_nat [a, b] =
     [b64_digit (a div 4), b64_digit ((a mod 4) * 16 + b div 16),
      b64_digit ((b mod 16) * 4), CHR ''='']"
| "b64encode_nat (a # b # c # r) =
     b64_digit (a div 4) # b64_digit ((a mod 4) * 16 + b div 16) #
     b64_digit ((b mod 16) * 4 + c div 64) # b64_digit (c mod 64) # b64encode_nat r"

definition b64encode :: "bytes \<Rightarrow> str" where
  "b64encode payload = b64encode_nat (map of_char payload)"

section \<open>Storage\<close>

text \<open>
  \<open>db.query(DataEntry).filter(DataEntry.content_hash == h).first()\<close>: the first row
  with this hash, if any. The column is unique, so the engine's scan order cannot change
  the answer.
\<close>

definition query_by_hash :: "table \<Rightarrow> str \<Rightarrow> DataEntry option" where
  "query_by_hash db h = find (\<lambda>e. content_hash e = h) db"

text \<open>
  The primary key the engine gives a new row: one more than the largest in use, 1 in an
  empty table (SQLite's rule for an \<open>INTEGER PRIMARY KEY\<close>, the default engine of
  database.py).
\<close>

definition next_id :: "table \<Rightarrow> int" where
  "next_id db = fold max (map entry_id db) 0 + 1"

text \<open>
  \<open>db.add(new_entry); db.commit(); db.refresh(new_entry)\<close> (services.py, lines 109
  to 111). The insert is rejected when a row with the same \<open>content_hash\<close> exists;
  otherwise the row is stored under a fresh \<open>id\<close> and the refreshed object is that
  row. The table after the call is returned on both paths.
\<close>

definition stored_row :: "table \<Rightarrow> DataEntry_values \<Rightarrow> DataEntry" where
  "stored_row db v =
     \<lparr>content_hash = content_hash v,
      content = content v,
      content_type = content_type v,
      is_verified = is_verified v,
      source = source v,
      confidence_score = confidence_score v,
      entry_id = next_id db\<rparr>"

definition add_commit_refresh ::
  "table \<Rightarrow> DataEntry_values \<Rightarrow> (error + DataEntry) \<times> table" where
  "add_commit_refresh db v =
     (if content_hash v \<in> set (map content_hash db)
      then (Inl IntegrityError, db)
      else (Inr (stored_row db v), db @ [stored_row db v]))"

section \<open>services.py: DataValidator\<close>

definition generate_hash :: "'j library \<Rightarrow> bytes \<Rightarrow> str" where
  "generate_hash lib payload = blake3_hexdigest lib payload"

definition detect_content_type :: "'j library \<Rightarrow> bytes \<Rightarrow> str" where
  "detect_content_type lib payload = magic_from_buffer lib payload"

text \<open>
  \<open>validate_data\<close> (lines 28 to 60). It returns the triple
  \<open>(is_duplicate, existing_entry, content_hash)\<close>, and the table as the call leaves
  it. The type detected on lines 57 and 58 is bound to a local name and dropped.
\<close>

definition validate_data ::
  "'j library \<Rightarrow> table \<Rightarrow> bytes \<Rightarrow> str option \<Rightarrow> str option \<Rightarrow> 'm option
    \<Rightarrow> (bool \<times> DataEntry option \<times> str) \<times> table" where
  "validate_data lib db payload ctype src metadata =
     (let h = generate_hash lib payload;
          existing_entry = query_by_hash db h
      in case existing_entry of
           Some e \<Rightarrow> ((True, Some e, h), db)
         | None \<Rightarrow>
             (let ctype' = (case ctype of
                              None \<Rightarrow> detect_content_type lib payload
                            | Some c \<Rightarrow> c)
              in ((False, None, h), db)))"

text \<open>
  Lines 85 to 97 of \<open>create_data_entry\<close>: the text stored in the \<open>content\<close>
  column.
\<close>

definition content_str :: "'j library \<Rightarrow> bytes \<Rightarrow> str" where
  "content_str lib payload =
     (case decode_utf8 payload of
        Some text \<Rightarrow>
          (case json_loads lib text of
             Some json_content \<Rightarrow> json_dumps lib json_content 2 False
           | None \<Rightarrow> text)
      | None \<Rightarrow> b64encode payload)"

text \<open>Lines 81 to 107: the object built for a payload that is not stored yet.\<close>

definition new_entry ::
  "'j library \<Rightarrow> bytes \<Rightarrow> str \<Rightarrow> str option \<Rightarrow> str option \<Rightarrow> bool \<Rightarrow> int
    \<Rightarrow> DataEntry_values" where
  "new_entry lib payload h ctype src verified score =
     \<lparr>content_hash = h,
      content = content_str lib payload,
      content_type = Some (case ctype of
                             None \<Rightarrow> detect_content_type lib payload
                           | Some c \<Rightarrow> c),
      is_verified = verified,
      source = src,
      confidence_score = min (max score 0) 100\<rparr>"

text \<open>
  \<open>create_data_entry\<close> (lines 62 to 113). The outcome is the returned entry or the
  exception raised, and the table as the call leaves it.
\<close>

definition create_data_entry ::
  "'j library \<Rightarrow> table \<Rightarrow> bytes \<Rightarrow> str option \<Rightarrow> str option
    \<Rightarrow> 'm option \<Rightarrow> bool \<Rightarrow> int \<Rightarrow> (error + DataEntry) \<times> table" where
  "create_data_entry lib db payload ctype src metadata verified score =
     (case validate_data lib db payload ctype src metadata of
        ((is_duplicate, existing_entry, h), db1) \<Rightarrow>
          (case (is_duplicate, existing_entry) of
             (True, Some e) \<Rightarrow> (Inr e, db1)
           | _ \<Rightarrow>
               add_commit_refresh db1
                 (new_entry lib payload h ctype src verified score)))"

text \<open>
  The same function run while concurrent sessions commit: \<open>others\<close> is what they do
  to the table between this call's read (line 47) and its own commit (line 110). With
  no other session writing it is \<open>create_data_entry\<close> (lemma
  \<open>create_data_entry_among_alone\<close>).
\<close>

definition create_data_entry_among ::
  "(table \<Rightarrow> table) \<Rightarrow> 'j library \<Rightarrow> table \<Rightarrow> bytes \<Rightarrow> str option \<Rightarrow> str option
    \<Rightarrow> 'm option \<Rightarrow> bool \<Rightarrow> int \<Rightarrow> (error + DataEntry) \<times> table" where
  "create_data_entry_among others lib db payload ctype src metadata verified score =
     (case validate_data lib db payload ctype src metadata of
        ((is_duplicate, existing_entry, h), db1) \<Rightarrow>
          (case (is_duplicate, existing_entry) of
             (True, Some e) \<Rightarrow> (Inr e, db1)
           | _ \<Rightarrow>
               add_commit_refresh (others db1)
                 (new_entry lib payload h ctype src verified score)))"


section \<open>main.py: list_entries\<close>










section \<open>Invariants of the table\<close>


definition ids_ascending :: "table \<Rightarrow> bool" where
  "ids_ascending db = sorted_wrt (<) (map entry_id db)"

definition scores_in_range :: "table \<Rightarrow> bool" where
  "scores_in_range db = list_all (\<lambda>e. 0 \<le> confidence_score e \<and> confidence_score e \<le> 100) db"

section \<open>A concrete library for examples\<close>

text \<open>
  Stand-ins for the library parameters, used to run the model on concrete payloads: the
  digest is the hex dump of the bytes, the detected type depends only on whether the
  bytes are text, and the JSON codec knows one document, the object with the member
  \<open>a\<close> of value 1, in its compact and in its indented spelling.
\<close>

definition hex_digit :: "nat \<Rightarrow> char" where
  "hex_digit n = ''0123456789abcdef'' ! (n mod 16)"

definition hex_dump :: "bytes \<Rightarrow> str" where
  "hex_dump payload =
     concat (map (\<lambda>c. [hex_digit (of_char c div 16), hex_digit (of_char c mod 16)]) payload)"

definition compact_a1 :: bytes where
  "compact_a1 = [CHR ''{'', CHR 0x22, CHR ''a'', CHR 0x22, CHR '':'', CHR ''1'', CHR ''}'']"

definition pretty_a1 :: bytes where
  "pretty_a1 =
     [CHR ''{'', CHR 0x0A, CHR '' '', CHR '' '', CHR 0x22, CHR ''a'', CHR 0x22, CHR '':'',
      CHR '' '', CHR ''1'', CHR 0x0A, CHR ''}'']"

definition sample_library :: "((str \<times> int) list) library" where
  "sample_library =
     \<lparr>blake3_hexdigest = hex_dump,
      magic_from_buffer =
        (\<lambda>payload. if decode_utf8 payload = None then ''application/octet-stream''
                    else ''text/plain''),
      json_loads =
        (\<lambda>text. if text = compact_a1 \<or> text = pretty_a1 then Some [(''a'', 1)] else None),
      json_dumps =
        (\<lambda>v indent ensure_ascii. if v = [(''a'', 1)] \<and> indent = 2 then pretty_a1 else [])\<rparr>"

text \<open>
  A table with two text entries, the first verified and the second not; it is what two
  submissions to an empty table leave (lemma \<open>two_entries_reachable\<close>).
\<close>

definition two_entries :: table where
  "two_entries =
     [\<lparr>content_hash = ''6869'', content = ''hi'', content_type = Some ''text/plain'',
       is_verified = True, source = None, confidence_score = 100, entry_id = 1\<rparr>,
      \<lparr>content_hash = ''796f'', content = ''yo'', content_type = Some ''text/plain'',
       is_verified = False, source = None, confidence_score = 100, entry_id = 2\<rparr>]"

section \<open>Basic facts\<close>

lemma query_by_hash_None: "query_by_hash db h = None \<longleftrightarrow> h \<notin> set (map content_hash db)"
  by (auto simp: query_by_hash_def find_None_iff)

lemma query_by_hash_Some: "query_by_hash db h = Some e \<Longrightarrow> e \<in> set db \<and> content_hash e = h"
  by (auto simp: query_by_hash_def find_Some_iff)

lemma query_by_hash_append_new:
  "query_by_hash db h = None \<Longrightarrow> content_hash row = h \<Longrightarrow> query_by_hash (db @ [row]) h = Some row"
  by (induction db) (auto simp: query_by_hash_def split: if_splits)

lemma validate_data_found:
  "query_by_hash db (generate_hash lib payload) = Some e \<Longrightarrow>
   validate_data lib db payload ctype src metadata = ((True, Some e, generate_hash lib payload), db)"
  by (simp add: validate_data_def)

lemma validate_data_missing:
  "query_by_hash db (generate_hash lib payload) = None \<Longrightarrow>
   validate_data lib db payload ctype src metadata = ((False, None, generate_hash lib payload), db)"
  by (simp add: validate_data_def)

lemma create_data_entry_among_alone:
  "create_data_entry_among (\<lambda>db. db) lib db payload ctype src metadata verified score
     = create_data_entry lib db payload ctype src metadata verified score"
  by (simp add: create_data_entry_among_def create_data_entry_def)

lemma create_duplicate:
  "query_by_hash db (generate_hash lib payload) = Some e \<Longrightarrow>
   create_data_entry_among others lib db payload ctype src metadata verified score = (Inr e, db)"
  by (simp add: create_data_entry_among_def validate_data_found)

lemma new_entry_hash [simp]:
  "content_hash (new_entry lib payload h ctype src verified score) = h"
  by (simp add: new_entry_def)

lemma create_new:
  assumes "query_by_hash db (generate_hash lib payload) = None"
  shows "create_data_entry lib db payload ctype src metadata verified score =
    (Inr (stored_row db (new_entry lib payload (generate_hash lib payload) ctype src verified score)),
     db @ [stored_row db (new_entry lib payload (generate_hash lib payload) ctype src verified score)])"
proof -
  have "generate_hash lib payload \<notin> set (map content_hash db)"
    using assms by (simp add: query_by_hash_None)
  then show ?thesis
    using assms
    by (simp add: create_data_entry_def validate_data_missing add_commit_refresh_def)
qed

lemma create_conflict:
  assumes "query_by_hash db (generate_hash lib payload) = None"
    and "query_by_hash (others db) (generate_hash lib payload) = Some e'"
  shows "create_data_entry_among others lib db payload ctype src metadata verified score =
    (Inl IntegrityError, others db)"
proof -
  have "generate_hash lib payload \<in> set (map content_hash (others db))"
    using assms(2) query_by_hash_None[of "others db" "generate_hash lib payload"] by auto
  then show ?thesis
    using assms(1)
    by (simp add: create_data_entry_among_def validate_data_missing
        add_commit_refresh_def new_entry_def)
qed

lemma fold_max_ge: "(a::int) \<le> fold max xs a"
  by (induction xs arbitrary: a) (auto intro: order_trans[OF max.cobounded2])

lemma fold_max_mem: "(x::int) \<in> set xs \<Longrightarrow> x \<le> fold max xs a"
proof (induction xs arbitrary: a)
  case Nil then show ?case by simp
next
  case (Cons y ys)
  show ?case
  proof (cases "x = y")
    case True
    have "max y a \<le> fold max ys (max y a)" by (rule fold_max_ge)
    then show ?thesis using True by simp
  next
    case False
    then show ?thesis using Cons by simp
  qed
qed

lemma next_id_fresh: "e \<in> set db \<Longrightarrow> entry_id e < next_id db"
  using fold_max_mem[of "entry_id e" "map entry_id db" 0] by (simp add: next_id_def)


lemma create_total:
  "\<exists>e. create_data_entry lib db payload ctype src metadata verified score = (Inr e, db)
      \<and> query_by_hash db (generate_hash lib payload) = Some e
    \<or> create_data_entry lib db payload ctype src metadata verified score = (Inr e, db @ [e])
      \<and> query_by_hash db (generate_hash lib payload) = None
      \<and> e = stored_row db (new_entry lib payload (generate_hash lib payload) ctype src verified score)"
proof (cases "query_by_hash db (generate_hash lib payload)")
  case None
  then show ?thesis using create_new[OF None] by blast
next
  case (Some e)
  then show ?thesis
    using create_duplicate[OF Some, of "\<lambda>db. db"] by (auto simp: create_data_entry_among_alone)
qed

lemma stored_row_hash [simp]:
  "content_hash (stored_row db (new_entry lib payload h ctype src verified score)) = h"
  by (simp add: stored_row_def new_entry_def)

lemma create_then_found:
  assumes "create_data_entry lib db payload ctype src metadata verified score = (r, db')"
  shows "\<exists>e. r = Inr e \<and> query_by_hash db' (generate_hash lib payload) = Some e"
  using create_total[of lib db payload ctype src metadata verified score] assms
  by (auto simp: query_by_hash_append_new)


lemma ids_ascending_create:
  assumes "ids_ascending db"
    and "create_data_entry lib db payload ctype src metadata verified score = (r, db')"
  shows "ids_ascending db'"
  using create_total[of lib db payload ctype src metadata verified score] assms
  by (auto simp: ids_ascending_def sorted_wrt_append stored_row_def dest: next_id_fresh)



subsection \<open>Evaluation on concrete inputs\<close>

lemmas model_defs =
  create_data_entry_def create_data_entry_among_def validate_data_def generate_hash_def
  detect_content_type_def query_by_hash_def add_commit_refresh_def stored_row_def next_id_def
  new_entry_def content_str_def decode_utf8_def continuation_def b64encode_def b64_digit_def
  b64_alphabet_def

lemmas sample_defs =
  sample_library_def hex_dump_def hex_digit_def compact_a1_def pretty_a1_def


lemma decode_utf8_examples:
  "decode_utf8 [CHR 0x00, CHR 0x01, CHR 0xFF] = None"
  "decode_utf8 ''hello world'' = Some ''hello world''"
  "decode_utf8 [CHR 0xC3, CHR 0xA9] = Some [CHR 0xC3, CHR 0xA9]"
  "decode_utf8 [CHR 0xC0, CHR 0x80] = None"
  "decode_utf8 [CHR 0xED, CHR 0xA0, CHR 0x80] = None"
  by (simp_all add: decode_utf8_def continuation_def)

lemma two_entries_reachable:
  "snd (create_data_entry sample_library
          (snd (create_data_entry sample_library [] ''hi'' None None (None :: unit option) True 100))
          ''yo'' None None (None :: unit option) False 100) = two_entries"
  by (simp add: model_defs sample_defs two_entries_def)

subsection \<open>Filtering and paging\<close>




section \<open>The duplicate check\<close>

text \<open>
  C6. \<open>validate_data\<close> is a read: the table it leaves is the table it was given.
  When a row with the hash of the payload exists, the answer is \<open>True\<close>, such a
  row and the hash; when none exists, it is \<open>False\<close>, no entry and the hash.
\<close>

theorem validate_data_pure_read:
  "snd (validate_data lib db payload ctype src metadata) = db
   \<and> (if generate_hash lib payload \<in> content_hash ` set db
      then \<exists>e \<in> set db. content_hash e = generate_hash lib payload
             \<and> fst (validate_data lib db payload ctype src metadata)
                 = (True, Some e, generate_hash lib payload)
      else fst (validate_data lib db payload ctype src metadata)
             = (False, None, generate_hash lib payload))"
proof (cases "query_by_hash db (generate_hash lib payload)")
  case None
  then show ?thesis
    using validate_data_missing[OF None, of ctype src metadata]
    by (simp add: query_by_hash_None)
next
  case (Some e)
  then show ?thesis
    using validate_data_found[OF Some, of ctype src metadata] query_by_hash_Some[OF Some]
    by force
qed

theorem validate_data_pure_read_witness:
  "snd (validate_data sample_library two_entries ''yo'' None None (None :: unit option)) = two_entries
   \<and> generate_hash sample_library ''yo'' \<in> content_hash ` set two_entries
   \<and> (\<exists>e \<in> set two_entries. content_hash e = generate_hash sample_library ''yo''
        \<and> fst (validate_data sample_library two_entries ''yo'' None None (None :: unit option))
            = (True, Some e, generate_hash sample_library ''yo''))
   \<and> generate_hash sample_library ''no'' \<notin> content_hash ` set two_entries
   \<and> fst (validate_data sample_library two_entries ''no'' None None (None :: unit option))
       = (False, None, generate_hash sample_library ''no'')"
proof -
  have 1: "generate_hash sample_library ''yo'' \<in> content_hash ` set two_entries"
    by (simp add: generate_hash_def sample_defs two_entries_def)
  have 2: "generate_hash sample_library ''no'' \<notin> content_hash ` set two_entries"
    by (simp add: generate_hash_def sample_defs two_entries_def)
  show ?thesis
    using 1 2
      validate_data_pure_read [of sample_library two_entries "''yo''" None None "None :: unit option"]
      validate_data_pure_read [of sample_library two_entries "''no''" None None "None :: unit option"]
    by simp
qed

text \<open>
  C7. The answer of \<open>validate_data\<close> does not depend on the hints
  \<open>content_type\<close>, \<open>source\<close> and \<open>metadata\<close>; and once a payload has
  been submitted, a check of the same bytes under any hints reports a duplicate of the
  entry that the submission returned.
\<close>

theorem validate_data_ignores_hints:
  "validate_data lib db payload ctype src metadata
     = validate_data lib db payload ctype' src' metadata'
   \<and> (\<exists>e db'. create_data_entry lib db payload ctype src metadata verified score = (Inr e, db')
        \<and> validate_data lib db' payload ctype' src' metadata'
            = ((True, Some e, generate_hash lib payload), db'))"
proof -
  have "validate_data lib db payload ctype src metadata
     = validate_data lib db payload ctype' src' metadata'"
    by (cases "query_by_hash db (generate_hash lib payload)")
      (simp_all add: validate_data_missing validate_data_found)
  moreover obtain r db' where c: "create_data_entry lib db payload ctype src metadata verified score = (r, db')"
    by (cases "create_data_entry lib db payload ctype src metadata verified score") auto
  from create_then_found[OF c] obtain e where
    "r = Inr e" "query_by_hash db' (generate_hash lib payload) = Some e" by blast
  ultimately show ?thesis using c by (auto simp: validate_data_found)
qed

theorem validate_data_ignores_hints_witness:
  "validate_data sample_library two_entries ''hi'' None None (None :: unit option)
     = validate_data sample_library two_entries ''hi'' (Some ''image/png'') (Some ''upload'')
         (Some ())
   \<and> (\<exists>e db'. create_data_entry sample_library two_entries ''hi'' None None (None :: unit option)
          True 100 = (Inr e, db')
        \<and> validate_data sample_library db' ''hi'' (Some ''image/png'') (Some ''upload'') (Some ())
            = ((True, Some e, generate_hash sample_library ''hi''), db'))"
  using validate_data_ignores_hints
    [of sample_library two_entries "''hi''" None None "None :: unit option"
        "Some ''image/png''" "Some ''upload''" "Some ()" True 100]
  by simp

section \<open>What a submission stores\<close>





text \<open>
  C5. Whatever \<open>confidence_score\<close> the caller passes, the call succeeds, and a
  table whose scores lie between 0 and 100 stays so; the score stored with a new entry
  is 0 for a negative argument, 100 for an argument above 100, and the argument itself
  in between.
\<close>

theorem confidence_score_clamped:
  assumes "scores_in_range db"
  shows "\<exists>e db'. create_data_entry lib db payload ctype src metadata verified score = (Inr e, db')
     \<and> scores_in_range db'
     \<and> (query_by_hash db (generate_hash lib payload) = None \<longrightarrow>
          db' = db @ [e]
          \<and> confidence_score e = (if score < 0 then 0 else if 100 < score then 100 else score))"
  using create_total[of lib db payload ctype src metadata verified score] assms
  by (auto simp: scores_in_range_def stored_row_def new_entry_def)

theorem confidence_score_clamped_witness:
  "scores_in_range []
   \<and> query_by_hash [] (generate_hash sample_library ''hi'') = None
   \<and> (\<exists>e db'. create_data_entry sample_library [] ''hi'' None None (None :: unit option) True 500
          = (Inr e, db')
        \<and> scores_in_range db' \<and> db' = [] @ [e] \<and> confidence_score e = 100)
   \<and> (\<exists>e db'. create_data_entry sample_library [] ''hi'' None None (None :: unit option) True (- 5)
          = (Inr e, db')
        \<and> scores_in_range db' \<and> db' = [] @ [e] \<and> confidence_score e = 0)"
proof -
  have 1: "scores_in_range []" by (simp add: scores_in_range_def)
  have 2: "query_by_hash [] (generate_hash sample_library ''hi'') = None"
    by (simp add: query_by_hash_def)
  show ?thesis
    using 1 2
      confidence_score_clamped [OF 1, of sample_library "''hi''" None None "None :: unit option" True 500]
      confidence_score_clamped [OF 1, of sample_library "''hi''" None None "None :: unit option" True "- 5"]
    by simp
qed

text \<open>
  C10. When an entry with the hash of the payload is stored, \<open>create_data_entry\<close>
  returns that entry as it is stored and leaves the table as it was, whatever
  \<open>content_type\<close>, \<open>source\<close>, \<open>metadata\<close>, \<open>is_verified\<close> and
  \<open>confidence_score\<close> the call carries.
\<close>

theorem duplicate_returns_stored_entry:
  assumes "query_by_hash db (generate_hash lib payload) = Some e"
  shows "create_data_entry lib db payload ctype src metadata verified score = (Inr e, db)
     \<and> e \<in> set db"
  using query_by_hash_Some[OF assms] create_duplicate[OF assms, of "\<lambda>db. db"]
  by (simp add: create_data_entry_among_alone)

theorem duplicate_returns_stored_entry_witness:
  "query_by_hash two_entries (generate_hash sample_library ''hi'') = Some (hd two_entries)
   \<and> create_data_entry sample_library two_entries ''hi'' (Some ''image/png'') (Some ''other'')
        (None :: unit option) False 3 = (Inr (hd two_entries), two_entries)
   \<and> hd two_entries \<in> set two_entries"
proof -
  have 1: "query_by_hash two_entries (generate_hash sample_library ''hi'') = Some (hd two_entries)"
    by (simp add: query_by_hash_def generate_hash_def sample_defs two_entries_def)
  show ?thesis
    using 1 duplicate_returns_stored_entry
      [OF 1, of "Some ''image/png''" "Some ''other''" "None :: unit option" False 3]
    by simp
qed

section \<open>Repeated submission\<close>



section \<open>Payloads that differ only in spelling\<close>

text \<open>
  C9. Two payloads with different digests and the same prepared content, neither stored
  yet, are both stored, one after the other: two rows with equal \<open>content\<close>,
  different \<open>content_hash\<close> and different \<open>id\<close>. Only the hash is checked
  for uniqueness. The witness is the JSON object with member \<open>a\<close> of value 1 in
  its compact spelling and in its indented one.
\<close>

theorem same_content_different_hash_both_stored:
  assumes "generate_hash lib p1 \<noteq> generate_hash lib p2"
    and "content_str lib p1 = content_str lib p2"
    and "query_by_hash db (generate_hash lib p1) = None"
    and "query_by_hash db (generate_hash lib p2) = None"
  shows "\<exists>e1 e2. create_data_entry lib db p1 ctype1 src1 metadata1 verified1 score1 = (Inr e1, db @ [e1])
     \<and> create_data_entry lib (db @ [e1]) p2 ctype2 src2 metadata2 verified2 score2
         = (Inr e2, db @ [e1, e2])
     \<and> content e1 = content e2
     \<and> content_hash e1 \<noteq> content_hash e2
     \<and> entry_id e1 < entry_id e2"
proof -
  let ?e1 = "stored_row db (new_entry lib p1 (generate_hash lib p1) ctype1 src1 verified1 score1)"
  let ?db1 = "db @ [?e1]"
  let ?e2 = "stored_row ?db1 (new_entry lib p2 (generate_hash lib p2) ctype2 src2 verified2 score2)"
  have 1: "create_data_entry lib db p1 ctype1 src1 metadata1 verified1 score1 = (Inr ?e1, ?db1)"
    by (rule create_new[OF assms(3)])
  have "query_by_hash ?db1 (generate_hash lib p2) = None"
    using assms(1,4) by (simp add: query_by_hash_None)
  then have 2: "create_data_entry lib ?db1 p2 ctype2 src2 metadata2 verified2 score2 = (Inr ?e2, ?db1 @ [?e2])"
    by (rule create_new)
  have "entry_id ?e1 < next_id ?db1" by (rule next_id_fresh) simp
  then have 3: "entry_id ?e1 < entry_id ?e2" by (simp add: stored_row_def)
  have 4: "content ?e1 = content ?e2" using assms(2) by (simp add: stored_row_def new_entry_def)
  have 5: "content_hash ?e1 \<noteq> content_hash ?e2" using assms(1) by simp
  show ?thesis using 1 2 3 4 5 by (intro exI[of _ ?e1] exI[of _ ?e2]) simp
qed

theorem same_content_different_hash_both_stored_witness:
  "generate_hash sample_library compact_a1 \<noteq> generate_hash sample_library pretty_a1
   \<and> content_str sample_library compact_a1 = content_str sample_library pretty_a1
   \<and> query_by_hash [] (generate_hash sample_library compact_a1) = None
   \<and> query_by_hash [] (generate_hash sample_library pretty_a1) = None
   \<and> (\<exists>e1 e2. create_data_entry sample_library [] compact_a1 None None (None :: unit option) True 100
          = (Inr e1, [] @ [e1])
        \<and> create_data_entry sample_library ([] @ [e1]) pretty_a1 None None (None :: unit option) True 100
            = (Inr e2, [] @ [e1, e2])
        \<and> content e1 = content e2
        \<and> content_hash e1 \<noteq> content_hash e2
        \<and> entry_id e1 < entry_id e2)"
proof -
  have 1: "generate_hash sample_library compact_a1 \<noteq> generate_hash sample_library pretty_a1"
    by (simp add: generate_hash_def sample_defs)
  have 2: "content_str sample_library compact_a1 = content_str sample_library pretty_a1"
    by (simp add: content_str_def decode_utf8_def sample_defs)
  have 3: "query_by_hash [] (generate_hash sample_library compact_a1) = None"
    by (simp add: query_by_hash_def)
  have 4: "query_by_hash [] (generate_hash sample_library pretty_a1) = None"
    by (simp add: query_by_hash_def)
  show ?thesis
    using 1 2 3 4 same_content_different_hash_both_stored
      [OF 1 2 3 4, of None None "None :: unit option" True 100 None None "None :: unit option" True 100]
    by simp
qed

section \<open>A concurrent writer\<close>

text \<open>
  C1, as the code has it. When no entry with the hash of the payload is stored at the
  time of the read, and another session has stored one by the time of the insert,
  \<open>create_data_entry\<close> does not read again: the \<open>IntegrityError\<close> of the
  storage layer is its outcome, and the table is as the other session left it.
\<close>

theorem insert_conflict_is_raised:
  assumes "query_by_hash db (generate_hash lib payload) = None"
    and "query_by_hash (others db) (generate_hash lib payload) = Some e'"
  shows "create_data_entry_among others lib db payload ctype src metadata verified score
     = (Inl IntegrityError, others db)"
  using assms by (rule create_conflict)

theorem insert_conflict_is_raised_witness:
  "query_by_hash [] (generate_hash sample_library ''hi'') = None
   \<and> query_by_hash (snd (create_data_entry sample_library [] ''hi'' None None (None :: unit option) True 100))
        (generate_hash sample_library ''hi'')
      = Some \<lparr>content_hash = ''6869'', content = ''hi'', content_type = Some ''text/plain'',
               is_verified = True, source = None, confidence_score = 100, entry_id = 1\<rparr>
   \<and> fst (create_data_entry_among
        (\<lambda>db. snd (create_data_entry sample_library db ''hi'' None None (None :: unit option) True 100))
        sample_library [] ''hi'' (Some ''text/html'') None (None :: unit option) False 50)
      = Inl IntegrityError"
proof -
  have 1: "query_by_hash [] (generate_hash sample_library ''hi'') = None"
    by (simp add: query_by_hash_def)
  have 2: "query_by_hash (snd (create_data_entry sample_library [] ''hi'' None None (None :: unit option) True 100))
        (generate_hash sample_library ''hi'')
      = Some \<lparr>content_hash = ''6869'', content = ''hi'', content_type = Some ''text/plain'',
               is_verified = True, source = None, confidence_score = 100, entry_id = 1\<rparr>"
    by (simp add: model_defs sample_defs)
  show ?thesis
    using 1 2 insert_conflict_is_raised
      [where db = "[]" and lib = sample_library and payload = "''hi''"
         and others = "\<lambda>db. snd (create_data_entry sample_library db ''hi'' None None
           (None :: unit option) True 100)"
         and ctype = "Some ''text/html''" and src = None and metadata = "None :: unit option"
         and verified = False and score = 50]
    by simp
qed

text \<open>
  C1, as stated, fails. Two sessions submit the payload \<open>hi\<close> to an empty table;
  the second commits between the read and the insert of the first. The first call ends in
  \<open>IntegrityError\<close>, not in the entry that is now stored.
\<close>

theorem insert_conflict_not_recovered:
  "create_data_entry_among
     (\<lambda>db. snd (create_data_entry sample_library db ''hi'' None None (None :: unit option) True 100))
     sample_library [] ''hi'' None None (None :: unit option) True 100
   = (Inl IntegrityError,
      [\<lparr>content_hash = ''6869'', content = ''hi'', content_type = Some ''text/plain'',
        is_verified = True, source = None, confidence_score = 100, entry_id = 1\<rparr>])"
  by (simp add: model_defs sample_defs)

section \<open>Listing\<close>




end
